theory Spec2Isabelle
  imports Main "HOL-Library.AList"
begin

section \<open>Host values and errors\<close>

text \<open>
  The exceptions a JavaScript run of the two modules can end with: a plain
  \<^verbatim>\<open>Error\<close> carrying its message, a \<^verbatim>\<open>TypeError\<close> (a property read
  on \<^verbatim>\<open>null\<close>/\<^verbatim>\<open>undefined\<close>, a call of a non-function), the
  \<^verbatim>\<open>AssertionError\<close> of \<^verbatim>\<open>assert\<close>, and the \<^verbatim>\<open>RangeError\<close> with which
  the engine ends an unbounded recursion.
\<close>

datatype error = Error string | TypeError | AssertionError | RangeError

text \<open>
  Option values as \<^verbatim>\<open>parseOptions\<close> sees and builds them. An object is an
  association list in property order with distinct keys. \<open>Closure name options\<close> is the
  function value \<^verbatim>\<open>function(cont, oldTrace, extraOptions) {...}\<close> that
  \<^verbatim>\<open>parseOptions\<close> returns, with the two variables it captures.
  Numbers are the integer-valued ones.
\<close>

datatype jsval =
    Undefined
  | Null
  | Bool bool
  | Num int
  | Str string
  | Arr "jsval list"
  | Obj "(string \<times> jsval) list"
  | Closure jsval jsval

text \<open>Decimal rendering of an array index or a counter, as \<^verbatim>\<open>String(n)\<close> gives it.\<close>

function show_nat :: "nat \<Rightarrow> string" where
  "show_nat n =
     (if n < 10 then [char_of (48 + n)]
      else show_nat (n div 10) @ [char_of (48 + n mod 10)])"
  by pat_completeness auto
termination
  by (relation "measure id") auto

declare show_nat.simps [simp del]

section \<open>The underscore helpers used by kernels.js\<close>




text \<open>Own enumerable keys: none for a non-object, none for a function.\<close>

definition us_keys :: "jsval \<Rightarrow> string list" where
  "us_keys v =
     (case v of
        Obj kvs \<Rightarrow> map fst kvs
      | Arr xs \<Rightarrow> map show_nat [0..<length xs]
      | _ \<Rightarrow> [])"

definition us_values :: "jsval \<Rightarrow> jsval list" where
  "us_values v =
     (case v of
        Obj kvs \<Rightarrow> map snd kvs
      | Arr xs \<Rightarrow> xs
      | _ \<Rightarrow> [])"


text \<open>
  \<^verbatim>\<open>_.extendOwn(dest, src1, src2, ...)\<close>: every own key of every source is assigned
  to the destination, sources from left to right; a source that is not an object has no
  own keys and adds nothing. An assignment to a key the destination has keeps the key's
  place, a new key goes to the end.
\<close>

definition own_entries :: "jsval \<Rightarrow> (string \<times> jsval) list" where
  "own_entries v = zip (us_keys v) (us_values v)"

definition assign_all :: "(string \<times> jsval) list \<Rightarrow> (string \<times> jsval) list \<Rightarrow> (string \<times> jsval) list" where
  "assign_all src dest = fold (\<lambda>kv d. AList.update (fst kv) (snd kv) d) src dest"

definition us_extendOwn :: "(string \<times> jsval) list \<Rightarrow> jsval list \<Rightarrow> jsval" where
  "us_extendOwn dest srcs = Obj (fold (\<lambda>src d. assign_all (own_entries src) d) srcs dest)"

text \<open>Reading a property: a \<^verbatim>\<open>TypeError\<close> on \<^verbatim>\<open>null\<close>/\<^verbatim>\<open>undefined\<close>.\<close>

definition js_get :: "jsval \<Rightarrow> string \<Rightarrow> error + jsval" where
  "js_get v k =
     (case v of
        Undefined \<Rightarrow> Inl TypeError
      | Null \<Rightarrow> Inl TypeError
      | Obj kvs \<Rightarrow> (case map_of kvs k of Some x \<Rightarrow> Inr x | None \<Rightarrow> Inr Undefined)
      | _ \<Rightarrow> Inr Undefined)"

section \<open>Kernels (src/inference/kernels.js)\<close>

text \<open>
  A kernel is called as \<^verbatim>\<open>kernel(cont, trace, options)\<close> and ends by calling its
  continuation with a trace. A call is a function of the world \<open>'w\<close> (everything a
  side effect can touch) to the outcome of the run: \<open>None\<close> when the run does not
  return within the fuel, \<open>Some (Inl e)\<close> when it throws, \<open>Some (Inr a)\<close> when it
  returns. A trace \<open>'t\<close> is what the code passes around: the reference, not the contents.

  \<^verbatim>\<open>MHKernel\<close> and \<^verbatim>\<open>HMCKernel\<close> come from \<^verbatim>\<open>./mhkernel\<close> and
  \<^verbatim>\<open>./hmckernel\<close>, which are not in the source tree: they are parameters.
\<close>

type_synonym ('t, 'w, 'a) cont = "'t \<Rightarrow> 'w \<Rightarrow> (error + 'a) option"

type_synonym ('t, 'w, 'a) kernel = "('t, 'w, 'a) cont \<Rightarrow> 't \<Rightarrow> jsval \<Rightarrow> 'w \<Rightarrow> (error + 'a) option"

text \<open>
  The inner \<^verbatim>\<open>iter\<close> of \<^verbatim>\<open>sequenceKernel\<close>, over the elements of the array
  \<^verbatim>\<open>kernels\<close>; \<open>call\<close> is the application of a function value. On the empty array
  \<^verbatim>\<open>kernels[0]\<close> is \<^verbatim>\<open>undefined\<close> and the call throws.
\<close>

fun iter :: "(jsval \<Rightarrow> ('t, 'w, 'a) kernel) \<Rightarrow> jsval \<Rightarrow> ('t, 'w, 'a) cont \<Rightarrow> 't \<Rightarrow> jsval list
    \<Rightarrow> 'w \<Rightarrow> (error + 'a) option" where
  "iter call options cont trace [] = (\<lambda>w. Some (Inl TypeError))"
| "iter call options cont trace [k] = call k cont trace options"
| "iter call options cont trace (k # ks) =
     call k (\<lambda>trace2. iter call options cont trace2 ks) trace options"

text \<open>
  \<^verbatim>\<open>options.kernels\<close> is an array in every call the options compiler and the
  kernel contract produce. A value that is not an object has no callable element 0;
  array-like plain objects are outside this model and are treated the same way.
\<close>

definition sequenceKernel :: "(jsval \<Rightarrow> ('t, 'w, 'a) kernel) \<Rightarrow> ('t, 'w, 'a) kernel" where
  "sequenceKernel call cont oldTrace options =
     (case js_get options ''kernels'' of
        Inl e \<Rightarrow> (\<lambda>w. Some (Inl e))
      | Inr (Arr kernels) \<Rightarrow> iter call options cont oldTrace kernels
      | Inr _ \<Rightarrow> (\<lambda>w. Some (Inl TypeError)))"

definition HMCwithMHKernel :: "('t, 'w, 'a) kernel \<Rightarrow> ('t, 'w, 'a) kernel \<Rightarrow> ('t, 'w, 'a) kernel" where
  "HMCwithMHKernel MHKernel HMCKernel cont oldTrace options =
     HMCKernel
       (\<lambda>trace.
          let opts = us_extendOwn [(''discreteOnly'', Bool True)] [options]
          in MHKernel cont trace opts)
       oldTrace options"


definition kernels :: "('t, 'w, 'a) kernel \<Rightarrow> ('t, 'w, 'a) kernel \<Rightarrow> (jsval \<Rightarrow> ('t, 'w, 'a) kernel)
    \<Rightarrow> jsval \<Rightarrow> ('t, 'w, 'a) kernel option" where
  "kernels MHKernel HMCKernel call name =
     (if name = Str ''MH'' then Some MHKernel
      else if name = Str ''HMC'' then Some (HMCwithMHKernel MHKernel HMCKernel)
      else if name = Str ''HMConly'' then Some HMCKernel
      else if name = Str ''sequence'' then Some (sequenceKernel call)
      else None)"

subsection \<open>parseOptions\<close>












subsection \<open>Combinators\<close>

text \<open>
  \<^verbatim>\<open>tap\<close> and \<^verbatim>\<open>sequence\<close> return functions of two parameters; a third
  argument of a call is bound to nothing (\<open>unused\<close>), and a kernel they call with two
  arguments sees \<^verbatim>\<open>undefined\<close> as its options. \<open>fn\<close> returns the world it leaves
  behind, or throws.
\<close>

definition tap :: "('t \<Rightarrow> 'w \<Rightarrow> error + 'w) \<Rightarrow> ('t, 'w, 'a) kernel" where
  "tap fn = (\<lambda>k trace unused w.
     case fn trace w of
       Inl e \<Rightarrow> Some (Inl e)
     | Inr w' \<Rightarrow> k trace w')"

fun sequence :: "('t, 'w, 'a) kernel list \<Rightarrow> error + ('t, 'w, 'a) kernel" where
  "sequence [] = Inl AssertionError"
| "sequence [a] = Inl AssertionError"
| "sequence [a, b] =
     Inr (\<lambda>k trace1 unused. a (\<lambda>trace2. b k trace2 Undefined) trace1 Undefined)"
| "sequence (a # rest) =
     (case sequence rest of
        Inl e \<Rightarrow> Inl e
      | Inr r \<Rightarrow> sequence [a, r])"

text \<open>
  The value an object holds under an own key: the last entry for it (the only one, in
  an object with distinct keys).
\<close>

definition own_prop :: "jsval \<Rightarrow> string \<Rightarrow> jsval option" where
  "own_prop v k = map_of (rev (own_entries v)) k"

section \<open>Syntax trees (the CPS transformer)\<close>

text \<open>
  The nodes of the parser's tree, one constructor per \<^verbatim>\<open>type\<close> the transformer
  handles. A declarator is the pair of its \<^verbatim>\<open>id\<close> and \<^verbatim>\<open>init\<close>, a property
  the triple of its \<^verbatim>\<open>kind\<close>, \<^verbatim>\<open>key\<close> and \<^verbatim>\<open>value\<close>; a function
  expression holds its parameters and its body. \<open>NullNode\<close> is \<^verbatim>\<open>null\<close> where a
  child may be missing (the alternate of an \<^verbatim>\<open>if\<close>, the argument of a
  \<^verbatim>\<open>return\<close>, an \<^verbatim>\<open>init\<close>). \<open>Other t c\<close> is a node of any other type \<open>t\<close>,
  with the class the tree library gives it. Numbers in literals are the integers.
\<close>

datatype literal = LNum int | LBool bool | LStr string | LNull

datatype nclass = StatementClass | ExpressionClass | NodeClass

datatype node =
    Program "node list"
  | BlockStatement "node list"
  | ReturnStatement node
  | ExpressionStatement node
  | EmptyStatement
  | Identifier string
  | Literal literal
  | FunctionExpression "node list" node
  | VariableDeclaration "(node \<times> node) list"
  | CallExpression node "node list"
  | IfStatement node node node
  | ConditionalExpression node node node
  | ArrayExpression "node list"
  | ObjectExpression "(string \<times> node \<times> node) list"
  | MemberExpression node node bool
  | UnaryExpression string node bool
  | BinaryExpression string node node
  | NullNode
  | Other string nclass

text \<open>
  The transformer draws fresh names from a counter and can throw: a computation takes the
  counter and returns an error, or its result and the new counter.
\<close>

type_synonym 'a comp = "nat \<Rightarrow> error + 'a \<times> nat"

definition ret :: "'a \<Rightarrow> 'a comp" where
  "ret x = (\<lambda>s. Inr (x, s))"

definition throw :: "error \<Rightarrow> 'a comp" where
  "throw e = (\<lambda>s. Inl e)"

definition andThen :: "'a comp \<Rightarrow> ('a \<Rightarrow> 'b comp) \<Rightarrow> 'b comp" where
  "andThen m f = (\<lambda>s. case m s of Inl e \<Rightarrow> Inl e | Inr (x, s') \<Rightarrow> f x s')"

text \<open>
  Modelled from the spec: \<^verbatim>\<open>util.gensym\<close> is not in the source tree. The spec gives it
  as a monotonic counter and a name prefix, never repeating a name; here the name is the
  prefix followed by the counter in decimal.
\<close>

definition gensym :: "string \<Rightarrow> string comp" where
  "gensym name = (\<lambda>s. Inr (name @ show_nat s, Suc s))"

definition makeGensymVariable :: "string \<Rightarrow> node comp" where
  "makeGensymVariable name = andThen (gensym name) (\<lambda>g. ret (Identifier (''_'' @ g)))"

definition returnContIdentifier :: node where
  "returnContIdentifier = Identifier ''_return''"

text \<open>
  The \<^verbatim>\<open>type\<close> field, and the class that \<^verbatim>\<open>namedTypes.Statement.check\<close> and
  \<^verbatim>\<open>namedTypes.Expression.check\<close> of the tree library test. The builders of the
  library are the constructors; their checks of field types are not modelled.
\<close>

fun node_type :: "node \<Rightarrow> string" where
  "node_type (Program _) = ''Program''"
| "node_type (BlockStatement _) = ''BlockStatement''"
| "node_type (ReturnStatement _) = ''ReturnStatement''"
| "node_type (ExpressionStatement _) = ''ExpressionStatement''"
| "node_type EmptyStatement = ''EmptyStatement''"
| "node_type (Identifier _) = ''Identifier''"
| "node_type (Literal _) = ''Literal''"
| "node_type (FunctionExpression _ _) = ''FunctionExpression''"
| "node_type (VariableDeclaration _) = ''VariableDeclaration''"
| "node_type (CallExpression _ _) = ''CallExpression''"
| "node_type (IfStatement _ _ _) = ''IfStatement''"
| "node_type (ConditionalExpression _ _ _) = ''ConditionalExpression''"
| "node_type (ArrayExpression _) = ''ArrayExpression''"
| "node_type (ObjectExpression _) = ''ObjectExpression''"
| "node_type (MemberExpression _ _ _) = ''MemberExpression''"
| "node_type (UnaryExpression _ _ _) = ''UnaryExpression''"
| "node_type (BinaryExpression _ _ _) = ''BinaryExpression''"
| "node_type NullNode = ''null''"
| "node_type (Other t _) = t"

fun node_class :: "node \<Rightarrow> nclass" where
  "node_class (Program _) = NodeClass"
| "node_class (BlockStatement _) = StatementClass"
| "node_class (ReturnStatement _) = StatementClass"
| "node_class (ExpressionStatement _) = StatementClass"
| "node_class EmptyStatement = StatementClass"
| "node_class (VariableDeclaration _) = StatementClass"
| "node_class (IfStatement _ _ _) = StatementClass"
| "node_class NullNode = NodeClass"
| "node_class (Other _ c) = c"
| "node_class _ = ExpressionClass"

definition convertToStatement :: "node \<Rightarrow> error + node" where
  "convertToStatement node =
     (if node = NullNode then Inl TypeError
      else if node_class node = StatementClass then Inr node
      else if node_class node = ExpressionClass then Inr (ExpressionStatement node)
      else Inl (Error (''convertToStatement: can't handle node type: '' @ node_type node)))"

definition isBlockStatement :: "node \<Rightarrow> bool" where
  "isBlockStatement node = (case node of BlockStatement _ \<Rightarrow> True | _ \<Rightarrow> False)"

definition isFunctionExpression :: "node \<Rightarrow> bool" where
  "isFunctionExpression node = (case node of FunctionExpression _ _ \<Rightarrow> True | _ \<Rightarrow> False)"

definition isMemberExpression :: "node \<Rightarrow> bool" where
  "isMemberExpression node = (case node of MemberExpression _ _ _ \<Rightarrow> True | _ \<Rightarrow> False)"

definition buildFunc :: "node list \<Rightarrow> node \<Rightarrow> error + node" where
  "buildFunc args body =
     (if isBlockStatement body then Inr (FunctionExpression args body)
      else case convertToStatement body of
             Inl e \<Rightarrow> Inl e
           | Inr stmt \<Rightarrow> Inr (FunctionExpression args (BlockStatement [stmt])))"

definition lift :: "error + 'a \<Rightarrow> 'a comp" where
  "lift r = (case r of Inl e \<Rightarrow> throw e | Inr x \<Rightarrow> ret x)"

text \<open>
  \<^verbatim>\<open>cpsSequence\<close> takes two functions, \<^verbatim>\<open>atFinalElement\<close> and
  \<^verbatim>\<open>getFinalElement\<close>. The source passes six pairs of closures; a value of \<open>seq\<close>
  names the pair and holds the variables the closures capture.
\<close>

datatype seq =
    BlockSeq node
  | PrimitiveSeq node node
  | CompoundSeq node
  | UnarySeq string bool node
  | BinarySeq string node
  | ArraySeq node

definition atFinalElement :: "seq \<Rightarrow> node list \<Rightarrow> bool" where
  "atFinalElement q nodes = (case q of BlockSeq _ \<Rightarrow> length nodes = 1 | _ \<Rightarrow> length nodes = 0)"

definition isFunctionDeclaration :: "node \<Rightarrow> error + bool" where
  "isFunctionDeclaration node =
     (case node of
        NullNode \<Rightarrow> Inl TypeError
      | VariableDeclaration [] \<Rightarrow> Inl TypeError
      | VariableDeclaration (d # _) \<Rightarrow> Inr (isFunctionExpression (snd d))
      | _ \<Rightarrow> Inr False)"

subsection \<open>The termination measure\<close>

definition lsize :: "node list \<Rightarrow> nat" where
  "lsize nodes = sum_list (map (\<lambda>n. 2 * size n + 1) nodes)"

definition psize :: "(string \<times> node \<times> node) list \<Rightarrow> nat" where
  "psize props = sum_list (map (\<lambda>p. 2 * size (snd (snd p)) + 1) props)"

lemma lsize_simps [simp]:
  "lsize [] = 0" "lsize (n # ns) = 2 * size n + 1 + lsize ns"
  by (simp_all add: lsize_def)

lemma psize_simps [simp]:
  "psize [] = 0" "psize ((k, key, v) # ps) = 2 * size v + 1 + psize ps"
  by (simp_all add: psize_def)

lemma lsize_le: "lsize ns \<le> 2 * size_list size ns"
  by (induction ns) auto

lemma psize_le: "psize ps \<le> 2 * size_list (size_prod (\<lambda>x. 0) (size_prod size size)) ps"
  by (induction ps) auto

subsection \<open>The transformer\<close>

text \<open>
  The functions of the source, in its evaluation order: an argument is evaluated before
  the call it is passed to, so in \<^verbatim>\<open>cps(nodes[0], buildFunc([nextVar], cpsSequence(...)))\<close>
  the rest of the sequence is compiled first. On the empty list with a predicate that
  asks for one node (the block case) \<^verbatim>\<open>cpsSequence\<close> calls itself on
  \<^verbatim>\<open>[].slice(1)\<close>, the empty list again, before anything else: the recursion has no
  end and the engine throws its \<^verbatim>\<open>RangeError\<close>.
\<close>

function (sequential)
    cps :: "node \<Rightarrow> node \<Rightarrow> node comp"
and cpsAtomic :: "node \<Rightarrow> node comp"
and cpsSequence :: "seq \<Rightarrow> node list \<Rightarrow> node list \<Rightarrow> node comp"
and getFinalElement :: "seq \<Rightarrow> node list \<Rightarrow> node list \<Rightarrow> node comp"
and cpsBlock :: "node list \<Rightarrow> node \<Rightarrow> node comp"
and cpsPrimitiveApplication :: "node \<Rightarrow> node list \<Rightarrow> node \<Rightarrow> node comp"
and cpsCompoundApplication :: "node \<Rightarrow> node list \<Rightarrow> node \<Rightarrow> node comp"
and cpsApplication :: "node \<Rightarrow> node list \<Rightarrow> node \<Rightarrow> node comp"
and cpsUnaryExpression :: "string \<Rightarrow> node \<Rightarrow> bool \<Rightarrow> node \<Rightarrow> node comp"
and cpsBinaryExpression :: "string \<Rightarrow> node \<Rightarrow> node \<Rightarrow> node \<Rightarrow> node comp"
and cpsConditional :: "node \<Rightarrow> node \<Rightarrow> node \<Rightarrow> node \<Rightarrow> node comp"
and cpsIf :: "node \<Rightarrow> node \<Rightarrow> node \<Rightarrow> node \<Rightarrow> node comp"
and cpsArrayExpression :: "node list \<Rightarrow> node \<Rightarrow> node comp"
and cpsObjectExpression :: "(string \<times> node \<times> node) list \<Rightarrow> node \<Rightarrow> (string \<times> node \<times> node) list \<Rightarrow> node comp"
and cpsMemberExpression :: "node \<Rightarrow> node \<Rightarrow> bool \<Rightarrow> node \<Rightarrow> node comp"
and cpsVariableDeclaration :: "node \<Rightarrow> node \<Rightarrow> node \<Rightarrow> node comp"
where
  "cpsAtomic (FunctionExpression params body) =
     andThen (makeGensymVariable ''k'') (\<lambda>newCont.
     andThen (cps body newCont) (\<lambda>inner.
     andThen (lift (convertToStatement inner)) (\<lambda>stmt.
       lift (buildFunc (newCont # params)
         (BlockStatement [VariableDeclaration [(returnContIdentifier, newCont)], stmt])))))"
| "cpsAtomic (Identifier x) = ret (Identifier x)"
| "cpsAtomic (Literal v) = ret (Literal v)"
| "cpsAtomic EmptyStatement = ret (Identifier ''undefined'')"
| "cpsAtomic NullNode = throw TypeError"
| "cpsAtomic node = throw (Error (''cpsAtomic: unknown expression type: '' @ node_type node))"

| "cpsSequence q [] vars =
     (if atFinalElement q [] then getFinalElement q [] vars
      else throw RangeError)"
| "cpsSequence q (n # rest) vars =
     (if atFinalElement q (n # rest) then getFinalElement q (n # rest) vars
      else
        andThen (makeGensymVariable ''s'') (\<lambda>nextVar.
        andThen (cpsSequence q rest (vars @ [nextVar])) (\<lambda>inner.
        andThen (lift (buildFunc [nextVar] inner)) (\<lambda>f.
          cps n f))))"

| "getFinalElement (BlockSeq cont) nodes vars =
     (case nodes of [] \<Rightarrow> throw TypeError | n # _ \<Rightarrow> cps n cont)"
| "getFinalElement (PrimitiveSeq opNode cont) nodes vars =
     ret (CallExpression cont [CallExpression opNode vars])"
| "getFinalElement (CompoundSeq cont) nodes vars =
     (case vars of
        [] \<Rightarrow> throw TypeError
      | v0 # vs \<Rightarrow> ret (CallExpression v0 (cont # vs)))"
| "getFinalElement (UnarySeq opNode isPrefix cont) nodes vars =
     (case vars of
        [] \<Rightarrow> throw TypeError
      | v0 # _ \<Rightarrow> ret (CallExpression cont [UnaryExpression opNode v0 isPrefix]))"
| "getFinalElement (BinarySeq opNode cont) nodes vars =
     (case vars of
        [v0, v1] \<Rightarrow> ret (CallExpression cont [BinaryExpression opNode v0 v1])
      | _ \<Rightarrow> throw AssertionError)"
| "getFinalElement (ArraySeq cont) nodes vars =
     ret (CallExpression cont [ArrayExpression vars])"

| "cpsBlock [] cont = cpsSequence (BlockSeq cont) [] []"
| "cpsBlock (node # rest) cont =
     (if rest = [] then cpsSequence (BlockSeq cont) (node # rest) []
      else
        andThen (lift (isFunctionDeclaration node)) (\<lambda>fd.
          if fd then
            (case node of
               VariableDeclaration [(declId, declInit)] \<Rightarrow>
                 andThen (cpsAtomic declInit) (\<lambda>f.
                 andThen (cpsBlock rest cont) (\<lambda>newRemainderNode.
                   let newFunctionDeclarationNode = VariableDeclaration [(declId, f)]
                   in case newRemainderNode of
                        BlockStatement body \<Rightarrow>
                          ret (BlockStatement (newFunctionDeclarationNode # body))
                      | _ \<Rightarrow>
                          andThen (lift (convertToStatement newRemainderNode)) (\<lambda>stmt.
                            ret (BlockStatement [newFunctionDeclarationNode, stmt]))))
             | _ \<Rightarrow> throw AssertionError)
          else cpsSequence (BlockSeq cont) (node # rest) []))"

| "cpsPrimitiveApplication opNode argNodes cont =
     cpsSequence (PrimitiveSeq opNode cont) argNodes []"
| "cpsCompoundApplication opNode argNodes cont =
     cpsSequence (CompoundSeq cont) (opNode # argNodes) []"
| "cpsApplication opNode argNodes cont =
     (if isMemberExpression opNode then cpsPrimitiveApplication opNode argNodes cont
      else cpsCompoundApplication opNode argNodes cont)"
| "cpsUnaryExpression opNode argNode isPrefix cont =
     cpsSequence (UnarySeq opNode isPrefix cont) [argNode] []"
| "cpsBinaryExpression opNode leftNode rightNode cont =
     cpsSequence (BinarySeq opNode cont) [leftNode, rightNode] []"

| "cpsConditional test consequent alternate cont =
     andThen (makeGensymVariable ''cont'') (\<lambda>contName.
     andThen (makeGensymVariable ''test'') (\<lambda>testName.
     andThen (cps consequent contName) (\<lambda>c.
     andThen (cps alternate contName) (\<lambda>a.
     andThen (lift (buildFunc [testName] (ConditionalExpression testName c a))) (\<lambda>f.
     andThen (cps test f) (\<lambda>t.
     andThen (lift (buildFunc [contName] t)) (\<lambda>g.
       ret (CallExpression g [cont]))))))))"

| "cpsIf test consequent alternate cont =
     andThen (makeGensymVariable ''cont'') (\<lambda>contName.
     andThen (makeGensymVariable ''test'') (\<lambda>testName.
     andThen (cps consequent contName) (\<lambda>consequentNode.
     andThen (if alternate = NullNode
              then ret (CallExpression cont [Identifier ''undefined''])
              else cps alternate contName) (\<lambda>alternateNode.
     andThen (lift (convertToStatement consequentNode)) (\<lambda>c.
     andThen (lift (convertToStatement alternateNode)) (\<lambda>a.
     andThen (lift (buildFunc [testName] (IfStatement testName c a))) (\<lambda>f.
     andThen (cps test f) (\<lambda>t.
     andThen (lift (buildFunc [contName] t)) (\<lambda>g.
       ret (CallExpression g [cont]))))))))))"

| "cpsArrayExpression elements cont = cpsSequence (ArraySeq cont) elements []"

| "cpsObjectExpression [] cont props =
     ret (CallExpression cont [ObjectExpression props])"
| "cpsObjectExpression ((pkind, pkey, pvalue) # rest) cont props =
     andThen (makeGensymVariable ''ob'') (\<lambda>nextVal.
     andThen (cpsObjectExpression rest cont (props @ [(pkind, pkey, nextVal)])) (\<lambda>inner.
     andThen (lift (buildFunc [nextVal] inner)) (\<lambda>f.
       cps pvalue f)))"

| "cpsMemberExpression obj prop computed cont =
     (if computed then
        andThen (makeGensymVariable ''obj'') (\<lambda>objName.
        andThen (makeGensymVariable ''prop'') (\<lambda>propName.
        andThen (lift (buildFunc [propName]
                   (CallExpression cont [MemberExpression objName propName computed]))) (\<lambda>f.
        andThen (cps prop f) (\<lambda>p.
        andThen (lift (buildFunc [objName] p)) (\<lambda>g.
          cps obj g)))))
      else
        andThen (makeGensymVariable ''obj'') (\<lambda>objName.
        andThen (lift (buildFunc [objName]
                   (CallExpression cont [MemberExpression objName prop False]))) (\<lambda>g.
          cps obj g)))"

| "cpsVariableDeclaration declarationId declarationInit cont =
     (if isFunctionExpression declarationInit then
        andThen (cpsAtomic declarationInit) (\<lambda>f.
        andThen (lift (convertToStatement (CallExpression cont [Identifier ''undefined'']))) (\<lambda>stmt.
          ret (BlockStatement [VariableDeclaration [(declarationId, f)], stmt])))
      else
        andThen (lift (buildFunc [declarationId] (CallExpression cont [Identifier ''undefined'']))) (\<lambda>f.
          cps declarationInit f))"

| "cps (BlockStatement body) cont = cpsBlock body cont"
| "cps (Program body) cont =
     andThen (cpsBlock body cont) (\<lambda>b.
     andThen (lift (convertToStatement b)) (\<lambda>stmt.
       ret (Program [stmt])))"
| "cps (ReturnStatement argument) cont = cps argument returnContIdentifier"
| "cps (ExpressionStatement expression) cont = cps expression cont"
| "cps EmptyStatement cont =
     andThen (cpsAtomic EmptyStatement) (\<lambda>a. ret (CallExpression cont [a]))"
| "cps (Identifier x) cont =
     andThen (cpsAtomic (Identifier x)) (\<lambda>a. ret (CallExpression cont [a]))"
| "cps (Literal v) cont =
     andThen (cpsAtomic (Literal v)) (\<lambda>a. ret (CallExpression cont [a]))"
| "cps (FunctionExpression params body) cont =
     andThen (cpsAtomic (FunctionExpression params body)) (\<lambda>a. ret (CallExpression cont [a]))"
| "cps (VariableDeclaration declarations) cont =
     (case declarations of
        [(declId, declInit)] \<Rightarrow> cpsVariableDeclaration declId declInit cont
      | _ \<Rightarrow> throw AssertionError)"
| "cps (CallExpression callee arguments) cont = cpsApplication callee arguments cont"
| "cps (IfStatement test consequent alternate) cont = cpsIf test consequent alternate cont"
| "cps (ConditionalExpression test consequent alternate) cont =
     cpsConditional test consequent alternate cont"
| "cps (ArrayExpression elements) cont = cpsArrayExpression elements cont"
| "cps (ObjectExpression properties) cont = cpsObjectExpression properties cont []"
| "cps (MemberExpression object property computed) cont =
     cpsMemberExpression object property computed cont"
| "cps (UnaryExpression operator argument isPrefix) cont =
     cpsUnaryExpression operator argument isPrefix cont"
| "cps (BinaryExpression operator left right) cont =
     cpsBinaryExpression operator left right cont"
| "cps NullNode cont = throw TypeError"
| "cps (Other t c) cont = throw (Error (''cps: unknown node type: '' @ t))"
  by pat_completeness auto

termination
  apply (relation "measure
    (case_sum
      (case_sum
        (case_sum
          (case_sum (\<lambda>(node, cont). 5 * (2 * size node) + 4)
                    (\<lambda>node. 5 * (2 * size node) + 1))
          (case_sum (\<lambda>(q, nodes, vars). 5 * lsize nodes + 1)
                    (\<lambda>(q, nodes, vars). 5 * lsize nodes)))
        (case_sum
          (case_sum (\<lambda>(nodes, cont). 5 * lsize nodes + 2)
                    (\<lambda>(opNode, argNodes, cont). 5 * lsize argNodes + 2))
          (case_sum (\<lambda>(opNode, argNodes, cont). 5 * lsize (opNode # argNodes) + 2)
                    (\<lambda>(opNode, argNodes, cont). 5 * lsize (opNode # argNodes) + 3))))
      (case_sum
        (case_sum
          (case_sum (\<lambda>(opNode, argNode, isPrefix, cont). 5 * lsize [argNode] + 2)
                    (\<lambda>(opNode, leftNode, rightNode, cont). 5 * lsize [leftNode, rightNode] + 2))
          (case_sum (\<lambda>(test, consequent, alternate, cont).
                       5 * (2 * (size test + size consequent + size alternate) + 1))
                    (\<lambda>(test, consequent, alternate, cont).
                       5 * (2 * (size test + size consequent + size alternate) + 1))))
        (case_sum
          (case_sum (\<lambda>(elements, cont). 5 * lsize elements + 2)
                    (\<lambda>(properties, cont, props). 5 * psize properties))
          (case_sum (\<lambda>(obj, prop, computed, cont). 5 * (2 * (size obj + size prop) + 1))
                    (\<lambda>(declarationId, declarationInit, cont). 5 * (2 * size declarationInit + 1))))))")
                      apply auto
  subgoal for body using lsize_le[of body] by linarith
  subgoal for body using lsize_le[of body] by linarith
  subgoal for arguments using lsize_le[of arguments] by linarith
  subgoal for elements using lsize_le[of elements] by linarith
  subgoal for properties using psize_le[of properties] by linarith
  done

subsection \<open>The shape of a sequence\<close>

text \<open>
  Written after the spec's description of the sequencing primitive: the names a sequence
  binds, one per operand and in order, and the nesting in which operand \<open>i\<close> is compiled
  against the function that binds name \<open>i\<close> and holds the rest.
\<close>

definition seqVars :: "nat \<Rightarrow> nat \<Rightarrow> node list" where
  "seqVars s k = map (\<lambda>i. Identifier (''_'' @ ''s'' @ show_nat i)) [s..<s + k]"

fun thread :: "node list \<Rightarrow> node list \<Rightarrow> node comp \<Rightarrow> node comp" where
  "thread (n # ns) (v # vs) final =
     andThen (thread ns vs final) (\<lambda>inner.
     andThen (lift (buildFunc [v] inner)) (\<lambda>f.
       cps n f))"
| "thread ns vs final = final"

definition isBlockSeq :: "seq \<Rightarrow> bool" where
  "isBlockSeq q = (case q of BlockSeq _ \<Rightarrow> True | _ \<Rightarrow> False)"

subsection \<open>The nodes the transformer compiles\<close>

text \<open>
  The children of a node that \<^verbatim>\<open>cps\<close> is called on when it is called on the node,
  read off the functions above: not the member-expression callee of a call, not a
  property that is not computed, not a missing alternate.
\<close>

fun visited :: "node \<Rightarrow> node list" where
  "visited (Program body) = body"
| "visited (BlockStatement body) = body"
| "visited (ReturnStatement argument) = [argument]"
| "visited (ExpressionStatement expression) = [expression]"
| "visited (FunctionExpression params body) = [body]"
| "visited (VariableDeclaration declarations) =
     (case declarations of [(declId, declInit)] \<Rightarrow> [declInit] | _ \<Rightarrow> [])"
| "visited (CallExpression callee arguments) =
     (if isMemberExpression callee then arguments else callee # arguments)"
| "visited (IfStatement test consequent alternate) =
     (if alternate = NullNode then [test, consequent] else [test, consequent, alternate])"
| "visited (ConditionalExpression test consequent alternate) = [test, consequent, alternate]"
| "visited (ArrayExpression elements) = elements"
| "visited (ObjectExpression properties) = map (\<lambda>p. snd (snd p)) properties"
| "visited (MemberExpression object property computed) =
     (if computed then [object, property] else [object])"
| "visited (UnaryExpression operator argument isPrefix) = [argument]"
| "visited (BinaryExpression operator left right) = [left, right]"
| "visited node = []"

inductive reached :: "node \<Rightarrow> node \<Rightarrow> bool" where
  here: "reached n n"
| below: "c \<in> set (visited n) \<Longrightarrow> reached u c \<Longrightarrow> reached u n"

definition fails :: "node \<Rightarrow> bool" where
  "fails n = (\<forall>cont s. \<exists>e. cps n cont s = Inl e)"

definition failsAt :: "'a comp \<Rightarrow> bool" where
  "failsAt m = (\<forall>s. \<exists>e. m s = Inl e)"

section \<open>Running a tree\<close>

text \<open>
  What a compiled tree does when it runs is a matter of the language the trees are
  written in. This is an interpreter of that subset of JavaScript, enough to run the
  transformer's input and output: values, an environment of variables, and a world that
  the host functions (\<open>VHost\<close>, given by the parameter \<open>host\<close>) read and change. A
  call evaluates the callee, then the arguments from left to right, then applies. Every
  application of a closure uses one unit of fuel; \<open>None\<close> is a run that needs more.
  A closure sees the variables declared before it was created; the operators are those
  on integers and \<^verbatim>\<open>!\<close>, \<^verbatim>\<open>===\<close>; anything else is reported as an error of the
  model.
\<close>

datatype val =
    VUndefined
  | VNull
  | VNum int
  | VBool bool
  | VStr string
  | VArr "val list"
  | VObj "(string \<times> val) list"
  | VClosure "node list" node "(string \<times> val) list"
  | VHost string

type_synonym env = "(string \<times> val) list"

datatype completion = Value val | Returned val

type_synonym 'w outcome = "(error + completion \<times> env \<times> 'w) option"

type_synonym 'w host = "string \<Rightarrow> val list \<Rightarrow> 'w \<Rightarrow> error + val \<times> 'w"

definition thenV :: "'w outcome \<Rightarrow> (val \<Rightarrow> env \<Rightarrow> 'w \<Rightarrow> 'w outcome) \<Rightarrow> 'w outcome" where
  "thenV r f =
     (case r of
        None \<Rightarrow> None
      | Some (Inl e) \<Rightarrow> Some (Inl e)
      | Some (Inr (Returned v, env, w)) \<Rightarrow> Some (Inr (Returned v, env, w))
      | Some (Inr (Value v, env, w)) \<Rightarrow> f v env w)"

definition literal_val :: "literal \<Rightarrow> val" where
  "literal_val l = (case l of LNum n \<Rightarrow> VNum n | LBool b \<Rightarrow> VBool b | LStr s \<Rightarrow> VStr s | LNull \<Rightarrow> VNull)"

definition truthy :: "val \<Rightarrow> bool" where
  "truthy v =
     (case v of
        VUndefined \<Rightarrow> False
      | VNull \<Rightarrow> False
      | VBool b \<Rightarrow> b
      | VNum n \<Rightarrow> n \<noteq> 0
      | VStr s \<Rightarrow> s \<noteq> []
      | _ \<Rightarrow> True)"

definition lookup_var :: "env \<Rightarrow> string \<Rightarrow> error + val" where
  "lookup_var env x =
     (case map_of env x of
        Some v \<Rightarrow> Inr v
      | None \<Rightarrow>
          if x = ''undefined'' then Inr VUndefined
          else Inl (Error (''ReferenceError: '' @ x @ '' is not defined'')))"

definition get_member :: "val \<Rightarrow> val \<Rightarrow> error + val" where
  "get_member ob key =
     (case ob of
        VUndefined \<Rightarrow> Inl TypeError
      | VNull \<Rightarrow> Inl TypeError
      | VObj kvs \<Rightarrow>
          (case key of
             VStr k \<Rightarrow> (case map_of kvs k of Some v \<Rightarrow> Inr v | None \<Rightarrow> Inr VUndefined)
           | _ \<Rightarrow> Inr VUndefined)
      | VArr xs \<Rightarrow>
          (case key of
             VNum i \<Rightarrow> if 0 \<le> i \<and> nat i < length xs then Inr (xs ! nat i) else Inr VUndefined
           | _ \<Rightarrow> Inr VUndefined)
      | _ \<Rightarrow> Inr VUndefined)"

definition unary_op :: "string \<Rightarrow> val \<Rightarrow> error + val" where
  "unary_op opr v =
     (if opr = ''!'' then Inr (VBool (\<not> truthy v))
      else case v of
             VNum n \<Rightarrow>
               if opr = ''-'' then Inr (VNum (- n))
               else if opr = ''+'' then Inr (VNum n)
               else Inl (Error (''operator outside the model: '' @ opr))
           | _ \<Rightarrow> Inl (Error (''operator outside the model: '' @ opr)))"

definition binary_op :: "string \<Rightarrow> val \<Rightarrow> val \<Rightarrow> error + val" where
  "binary_op opr a b =
     (if opr = ''==='' then Inr (VBool (a = b))
      else case (a, b) of
             (VNum m, VNum n) \<Rightarrow>
               if opr = ''+'' then Inr (VNum (m + n))
               else if opr = ''-'' then Inr (VNum (m - n))
               else if opr = ''*'' then Inr (VNum (m * n))
               else if opr = ''<'' then Inr (VBool (m < n))
               else Inl (Error (''operator outside the model: '' @ opr))
           | _ \<Rightarrow> Inl (Error (''operator outside the model: '' @ opr)))"

fun param_name :: "node \<Rightarrow> string" where
  "param_name (Identifier x) = x"
| "param_name n = []"

fun bind_params :: "node list \<Rightarrow> val list \<Rightarrow> env \<Rightarrow> env" where
  "bind_params [] vs env = env"
| "bind_params (p # ps) [] env = bind_params ps [] ((param_name p, VUndefined) # env)"
| "bind_params (p # ps) (v # vs) env = bind_params ps vs ((param_name p, v) # env)"

definition liftV :: "env \<Rightarrow> 'w \<Rightarrow> error + val \<Rightarrow> 'w outcome" where
  "liftV env w r = (case r of Inl e \<Rightarrow> Some (Inl e) | Inr v \<Rightarrow> Some (Inr (Value v, env, w)))"

lemma lsize_length_le: "lsize ns + length ns \<le> 2 * size_list size ns"
  by (induction ns) auto

lemma psize_length_le:
  "psize ps + length ps \<le> 2 * size_list (size_prod (\<lambda>x. 0) (size_prod size size)) ps"
  by (induction ps) auto

function (sequential)
    run :: "nat \<Rightarrow> 'w host \<Rightarrow> env \<Rightarrow> node \<Rightarrow> 'w \<Rightarrow> 'w outcome"
and runList :: "nat \<Rightarrow> 'w host \<Rightarrow> env \<Rightarrow> node list \<Rightarrow> val \<Rightarrow> 'w \<Rightarrow> 'w outcome"
and runArgs :: "nat \<Rightarrow> 'w host \<Rightarrow> env \<Rightarrow> node list \<Rightarrow> val list \<Rightarrow> 'w \<Rightarrow> 'w outcome"
and runProps :: "nat \<Rightarrow> 'w host \<Rightarrow> env \<Rightarrow> (string \<times> node \<times> node) list \<Rightarrow> (string \<times> val) list \<Rightarrow> 'w \<Rightarrow> 'w outcome"
and applyVal :: "nat \<Rightarrow> 'w host \<Rightarrow> env \<Rightarrow> val \<Rightarrow> val list \<Rightarrow> 'w \<Rightarrow> 'w outcome"
where
  "run fuel host env (Program body) w = runList fuel host env body VUndefined w"
| "run fuel host env (BlockStatement body) w = runList fuel host env body VUndefined w"
| "run fuel host env (ReturnStatement argument) w =
     thenV (run fuel host env argument w) (\<lambda>v env' w'. Some (Inr (Returned v, env', w')))"
| "run fuel host env (ExpressionStatement expression) w = run fuel host env expression w"
| "run fuel host env EmptyStatement w = Some (Inr (Value VUndefined, env, w))"
| "run fuel host env (Identifier x) w = liftV env w (lookup_var env x)"
| "run fuel host env (Literal l) w = Some (Inr (Value (literal_val l), env, w))"
| "run fuel host env (FunctionExpression params body) w =
     Some (Inr (Value (VClosure params body env), env, w))"
| "run fuel host env (VariableDeclaration declarations) w =
     (case declarations of
        [(declId, declInit)] \<Rightarrow>
          thenV (run fuel host env declInit w)
            (\<lambda>v env' w'. Some (Inr (Value VUndefined, (param_name declId, v) # env', w')))
      | _ \<Rightarrow> Some (Inl (Error ''declaration outside the model'')))"
| "run fuel host env (CallExpression callee arguments) w =
     thenV (run fuel host env callee w) (\<lambda>f env1 w1.
     thenV (runArgs fuel host env1 arguments [] w1) (\<lambda>vs env2 w2.
       (case vs of
          VArr args \<Rightarrow> applyVal fuel host env2 f args w2
        | _ \<Rightarrow> Some (Inl TypeError))))"
| "run fuel host env (IfStatement test consequent alternate) w =
     thenV (run fuel host env test w) (\<lambda>t env1 w1.
       if truthy t then
         thenV (run fuel host env1 consequent w1) (\<lambda>v env2 w2. Some (Inr (Value VUndefined, env2, w2)))
       else if alternate = NullNode then Some (Inr (Value VUndefined, env1, w1))
       else
         thenV (run fuel host env1 alternate w1) (\<lambda>v env2 w2. Some (Inr (Value VUndefined, env2, w2))))"
| "run fuel host env (ConditionalExpression test consequent alternate) w =
     thenV (run fuel host env test w) (\<lambda>t env1 w1.
       if truthy t then run fuel host env1 consequent w1
       else run fuel host env1 alternate w1)"
| "run fuel host env (ArrayExpression elements) w = runArgs fuel host env elements [] w"
| "run fuel host env (ObjectExpression properties) w = runProps fuel host env properties [] w"
| "run fuel host env (MemberExpression object property computed) w =
     thenV (run fuel host env object w) (\<lambda>ob env1 w1.
       if computed then
         thenV (run fuel host env1 property w1) (\<lambda>key env2 w2. liftV env2 w2 (get_member ob key))
       else liftV env1 w1 (get_member ob (VStr (param_name property))))"
| "run fuel host env (UnaryExpression operator argument isPrefix) w =
     thenV (run fuel host env argument w) (\<lambda>v env1 w1. liftV env1 w1 (unary_op operator v))"
| "run fuel host env (BinaryExpression operator left right) w =
     thenV (run fuel host env left w) (\<lambda>a env1 w1.
     thenV (run fuel host env1 right w1) (\<lambda>b env2 w2. liftV env2 w2 (binary_op operator a b)))"
| "run fuel host env NullNode w = Some (Inl TypeError)"
| "run fuel host env (Other t c) w = Some (Inl (Error (''node outside the model: '' @ t)))"

| "runList fuel host env [] lastv w = Some (Inr (Value lastv, env, w))"
| "runList fuel host env (stmt # rest) lastv w =
     thenV (run fuel host env stmt w) (\<lambda>v env1 w1. runList fuel host env1 rest v w1)"

| "runArgs fuel host env [] vs w = Some (Inr (Value (VArr vs), env, w))"
| "runArgs fuel host env (arg # rest) vs w =
     thenV (run fuel host env arg w) (\<lambda>v env1 w1. runArgs fuel host env1 rest (vs @ [v]) w1)"

| "runProps fuel host env [] kvs w = Some (Inr (Value (VObj kvs), env, w))"
| "runProps fuel host env ((pkind, pkey, pvalue) # rest) kvs w =
     thenV (run fuel host env pvalue w) (\<lambda>v env1 w1.
       runProps fuel host env1 rest (kvs @ [(param_name pkey, v)]) w1)"

| "applyVal fuel host env (VHost name) args w =
     (case host name args w of
        Inl e \<Rightarrow> Some (Inl e)
      | Inr (v, w') \<Rightarrow> Some (Inr (Value v, env, w')))"
| "applyVal 0 host env (VClosure params body cenv) args w = None"
| "applyVal (Suc fuel) host env (VClosure params body cenv) args w =
     (case run fuel host (bind_params params args cenv) body w of
        None \<Rightarrow> None
      | Some (Inl e) \<Rightarrow> Some (Inl e)
      | Some (Inr (Returned v, env', w')) \<Rightarrow> Some (Inr (Value v, env, w'))
      | Some (Inr (Value v, env', w')) \<Rightarrow> Some (Inr (Value VUndefined, env, w')))"
| "applyVal fuel host env f args w = Some (Inl TypeError)"
  by pat_completeness auto


termination
  apply (relation "(case_sum
        (case_sum (\<lambda>(fuel, host, env, node, w). fuel) (\<lambda>(fuel, host, env, nodes, lastv, w). fuel))
        (case_sum (\<lambda>(fuel, host, env, nodes, vs, w). fuel)
           (case_sum (\<lambda>(fuel, host, env, props, kvs, w). fuel) (\<lambda>(fuel, host, env, f, args, w). fuel))))
      <*mlex*> measure (case_sum
        (case_sum (\<lambda>(fuel, host, env, node, w). 2 * size node + 1)
                  (\<lambda>(fuel, host, env, nodes, lastv, w). lsize nodes + length nodes))
        (case_sum (\<lambda>(fuel, host, env, nodes, vs, w). lsize nodes + length nodes)
           (case_sum (\<lambda>(fuel, host, env, props, kvs, w). psize props + length props)
                     (\<lambda>(fuel, host, env, f, args, w). 0))))")
                      apply (auto simp: wf_mlex mlex_iff)
  subgoal for body using lsize_length_le[of body] by linarith
  subgoal for body using lsize_length_le[of body] by linarith
  subgoal for callee arguments using lsize_length_le[of arguments] by linarith
  subgoal for elements using lsize_length_le[of elements] by linarith
  subgoal for properties using psize_length_le[of properties] by linarith
  done


text \<open>
  The effect of a run on the world, and the run of the tree that \<^verbatim>\<open>cps\<close> returns for
  a node and a continuation (compiled with the counter at 0).
\<close>

definition effects :: "'w outcome \<Rightarrow> (error + 'w) option" where
  "effects r = (case r of None \<Rightarrow> None | Some (Inl e) \<Rightarrow> Some (Inl e) | Some (Inr (c, env, w)) \<Rightarrow> Some (Inr w))"

definition compile_and_run :: "nat \<Rightarrow> 'w host \<Rightarrow> env \<Rightarrow> node \<Rightarrow> node \<Rightarrow> 'w \<Rightarrow> (error + 'w) option" where
  "compile_and_run fuel host env node cont w =
     (case cps node cont 0 of
        Inl e \<Rightarrow> Some (Inl e)
      | Inr (out, s) \<Rightarrow> effects (run fuel host env out w))"

text \<open>
  The host of the examples: every host function appends its name and arguments to a log
  and returns \<^verbatim>\<open>undefined\<close>. \<^verbatim>\<open>done\<close> is a host function, \<^verbatim>\<open>console\<close> an
  object of three host functions.
\<close>

definition logHost :: "(string \<times> val list) list host" where
  "logHost name args w = Inr (VUndefined, w @ [(name, args)])"

definition ex_env :: env where
  "ex_env = [(''done'', VHost ''done''),
             (''console'', VObj [(''a'', VHost ''a''), (''b'', VHost ''b''), (''f'', VHost ''f'')])]"



subsection \<open>Calls whose operands are host calls\<close>




definition seqNames :: "nat \<Rightarrow> nat \<Rightarrow> string list" where
  "seqNames s k = map (\<lambda>i. ''_'' @ ''s'' @ show_nat i) [s..<s + k]"




text \<open>Reading a decimal numeral back, the inverse of \<open>show_nat\<close>.\<close>

definition read_nat :: "string \<Rightarrow> nat" where
  "read_nat cs = foldl (\<lambda>a c. 10 * a + (of_char c - 48)) 0 cs"

section \<open>Properties of the kernel framework\<close>

subsection \<open>The merge of options\<close>

lemma map_of_assign_all:
  "map_of (assign_all src dest) k =
     (case map_of (rev src) k of Some v \<Rightarrow> Some v | None \<Rightarrow> map_of dest k)"
  unfolding assign_all_def
proof (induction src arbitrary: dest)
  case Nil
  show ?case by simp
next
  case (Cons kv src)
  show ?case
    by (simp add: Cons.IH update_conv' map_add_def split: option.splits)
qed

text \<open>The value a property read finds in a merged object.\<close>

lemma js_get_extendOwn1:
  "js_get (us_extendOwn dest [src]) k =
     (case own_prop src k of
        Some v \<Rightarrow> Inr v
      | None \<Rightarrow> js_get (Obj dest) k)"
  by (simp add: us_extendOwn_def js_get_def own_prop_def map_of_assign_all split: option.splits)


lemma js_get_Obj:
  "js_get (Obj kvs) k = (case map_of kvs k of Some x \<Rightarrow> Inr x | None \<Rightarrow> Inr Undefined)"
  by (simp add: js_get_def)

lemma map_of_rev_None: "k \<notin> fst ` set kvs \<Longrightarrow> map_of (rev kvs) k = None"
  by (simp add: map_of_eq_None_iff)

lemma own_entries_Obj: "own_entries (Obj kvs) = kvs"
  by (simp add: own_entries_def us_keys_def us_values_def zip_map_fst_snd)





lemma iter_recording:
  "ks \<noteq> [] \<Longrightarrow>
   iter (\<lambda>f cont trace opts w. cont trace (w @ [(f, opts)])) options cont trace ks w =
     cont trace (w @ map (\<lambda>f. (f, options)) ks)"
proof (induction ks arbitrary: trace w)
  case Nil
  then show ?case by simp
next
  case (Cons k ks)
  show ?case
  proof (cases ks)
    case Nil
    then show ?thesis by simp
  next
    case (Cons k' ks')
    then have "ks \<noteq> []" by simp
    from Cons.IH[OF this] Cons show ?thesis by simp
  qed
qed

text \<open>
  C2, as stated, fails: \<^verbatim>\<open>_.extendOwn({discreteOnly: true}, options)\<close> assigns the
  outer options over the default, so an outer \<^verbatim>\<open>discreteOnly: false\<close> reaches the MH
  stage. Here the MH stage returns the options it is called with and the HMC stage calls
  its continuation at once.
\<close>

theorem HMCwithMH_discreteOnly_counterexample:
  "HMCwithMHKernel (\<lambda>k t opts w. Some (Inr opts)) (\<lambda>k t opts w. k t w)
     (\<lambda>t w. Some (Inr Undefined)) () (Obj [(''discreteOnly'', Bool False)]) ()
   = Some (Inr (Obj [(''discreteOnly'', Bool False)]))"
  by (simp add: HMCwithMHKernel_def us_extendOwn_def own_entries_def us_keys_def
      us_values_def assign_all_def)

text \<open>
  C2 (amended): \<^verbatim>\<open>HMCwithMHKernel\<close> runs the HMC kernel with the outer options and,
  from its continuation, the MH kernel on the resulting trace with the outer options
  merged over the default \<^verbatim>\<open>discreteOnly = true\<close>: every own key of the outer options
  keeps the outer value (also \<^verbatim>\<open>discreteOnly\<close>), and \<^verbatim>\<open>discreteOnly\<close> is
  \<^verbatim>\<open>true\<close> when the outer options do not own it.
\<close>

theorem HMCwithMH_options:
  "HMCwithMHKernel MHKernel HMCKernel cont oldTrace options =
     HMCKernel
       (\<lambda>trace. MHKernel cont trace (us_extendOwn [(''discreteOnly'', Bool True)] [options]))
       oldTrace options
   \<and> js_get (us_extendOwn [(''discreteOnly'', Bool True)] [options]) k =
       (case own_prop options k of
          Some v \<Rightarrow> Inr v
        | None \<Rightarrow> if k = ''discreteOnly'' then Inr (Bool True) else Inr Undefined)"
  by (simp add: HMCwithMHKernel_def js_get_extendOwn1 js_get_Obj split: option.splits)


text \<open>
  C7: \<^verbatim>\<open>sequence(A, B, C)\<close> is built as \<^verbatim>\<open>sequence(A, sequence(B, C))\<close>, and
  the kernel it returns runs \<open>A\<close>, then \<open>B\<close> on the trace \<open>A\<close> hands to its
  continuation, then \<open>C\<close> on the trace \<open>B\<close> hands on, then the continuation \<open>k\<close>.
\<close>

theorem sequence_three:
  "\<exists>bc abc. sequence [B, C] = Inr bc \<and> sequence [A, B, C] = sequence [A, bc]
     \<and> sequence [A, B, C] = Inr abc
     \<and> (\<forall>k trace unused.
          abc k trace unused =
            A (\<lambda>trace2. B (\<lambda>trace3. C k trace3 Undefined) trace2 Undefined) trace Undefined)"
  by simp

text \<open>
  C9: when \<open>fn\<close> returns, the kernel \<^verbatim>\<open>tap(fn)\<close> calls \<open>k\<close> with the trace it
  was given, in the world \<open>fn\<close> left.
\<close>

theorem tap_forwards_trace:
  "fn trace w = Inr w' \<Longrightarrow> tap fn k trace opts w = k trace w'"
  by (simp add: tap_def)

text \<open>
  C10: the kernels of \<^verbatim>\<open>tap\<close> and of the pairwise \<^verbatim>\<open>sequence\<close> behave the same
  whatever third argument they are called with, and the kernels they wrap are called
  with \<^verbatim>\<open>undefined\<close> options; \<^verbatim>\<open>sequenceKernel\<close> calls every element of a
  non-empty \<^verbatim>\<open>options.kernels\<close>, in order, with its own options (the function
  application here records the callee and the options it is called with).
\<close>

theorem options_forwarding:
  assumes "js_get options ''kernels'' = Inr (Arr ks)" and "ks \<noteq> []"
  shows "tap fn k1 trace1 opts1 = tap fn k1 trace1 Undefined
   \<and> (\<exists>ab. sequence [A, B] = Inr ab
        \<and> (\<forall>k trace opts. ab k trace opts = A (\<lambda>trace2. B k trace2 Undefined) trace Undefined))
   \<and> sequenceKernel (\<lambda>f cont trace opts w. cont trace (w @ [(f, opts)])) cont trace options w =
       cont trace (w @ map (\<lambda>f. (f, options)) ks)"
  using assms by (simp add: tap_def sequenceKernel_def iter_recording)




text \<open>An instance of C9: \<open>fn\<close> logs the trace, \<open>k\<close> returns what it receives.\<close>

theorem tap_forwards_trace_witness:
  "(\<lambda>t w. Inr (w @ [t])) (7::nat) [] = (Inr [7] :: error + nat list)
   \<and> tap (\<lambda>t w. Inr (w @ [t])) (\<lambda>t w. Some (Inr (t, w))) (7::nat) Undefined []
       = (Some (Inr (7, [7])) :: (error + nat \<times> nat list) option)"
  using tap_forwards_trace[of "\<lambda>t w. Inr (w @ [t])" "7::nat" "[]" "[7]"
      "\<lambda>t w. Some (Inr (t, w))" Undefined]
  by simp

text \<open>An instance of C10 with two stages.\<close>

theorem options_forwarding_witness:
  "js_get (Obj [(''kernels'', Arr [Str ''a'', Str ''b''])]) ''kernels'' = Inr (Arr [Str ''a'', Str ''b''])
   \<and> [Str ''a'', Str ''b''] \<noteq> []
   \<and> sequenceKernel (\<lambda>f cont trace opts w. cont trace (w @ [(f, opts)]))
         (\<lambda>t w. Some (Inr w)) (0::nat) (Obj [(''kernels'', Arr [Str ''a'', Str ''b''])]) []
       = (Some (Inr [(Str ''a'', Obj [(''kernels'', Arr [Str ''a'', Str ''b''])]),
                     (Str ''b'', Obj [(''kernels'', Arr [Str ''a'', Str ''b''])])])
          :: (error + (jsval \<times> jsval) list) option)"
proof -
  have h: "js_get (Obj [(''kernels'', Arr [Str ''a'', Str ''b''])]) ''kernels'' = Inr (Arr [Str ''a'', Str ''b''])"
    by (simp add: js_get_def)
  have n: "[Str ''a'', Str ''b''] \<noteq> []" by simp
  from options_forwarding[OF h n, where cont = "\<lambda>t w. Some (Inr w)" and trace = "0::nat" and w = "[]"
      and fn = "\<lambda>(t::nat) (w::nat). Inr w" and ?k1.0 = "\<lambda>(t::nat) (w::nat). Some (Inr (0::nat))"
      and ?trace1.0 = "0::nat" and ?opts1.0 = Undefined
      and A = "\<lambda>k (t::nat) opts (w::nat). k t w" and B = "\<lambda>(k::(nat, nat, nat) cont) (t::nat) opts (w::nat). k t w"]
  have "sequenceKernel (\<lambda>f cont trace opts w. cont trace (w @ [(f, opts)]))
         (\<lambda>t w. Some (Inr w)) (0::nat) (Obj [(''kernels'', Arr [Str ''a'', Str ''b''])]) []
       = (Some (Inr [(Str ''a'', Obj [(''kernels'', Arr [Str ''a'', Str ''b''])]),
                     (Str ''b'', Obj [(''kernels'', Arr [Str ''a'', Str ''b''])])])
          :: (error + (jsval \<times> jsval) list) option)"
    by simp
  with h n show ?thesis by simp
qed

section \<open>Properties of the CPS transformer\<close>

subsection \<open>Sequences\<close>

lemma makeGensymVariable_run:
  "makeGensymVariable name s = Inr (Identifier (''_'' @ name @ show_nat s), Suc s)"
  by (simp add: makeGensymVariable_def gensym_def andThen_def ret_def)

lemma seqVars_Suc: "seqVars s (Suc k) = Identifier (''_'' @ ''s'' @ show_nat s) # seqVars (Suc s) k"
  by (simp add: seqVars_def upt_conv_Cons del: upt_Suc)

lemma seqVars_0: "seqVars s 0 = []"
  by (simp add: seqVars_def)

lemma andThen_gensym:
  "andThen (makeGensymVariable name) f s = f (Identifier (''_'' @ name @ show_nat s)) (Suc s)"
  by (simp add: andThen_def makeGensymVariable_run)

lemma andThen_cong_state:
  "m s = m' s' \<Longrightarrow> andThen m f s = andThen m' f s'"
  by (simp add: andThen_def)

lemma cpsSequence_thread:
  "\<not> isBlockSeq q \<Longrightarrow>
   cpsSequence q nodes vars s =
     thread nodes (seqVars s (length nodes))
       (getFinalElement q [] (vars @ seqVars s (length nodes))) (s + length nodes)"
proof (induction nodes arbitrary: vars s)
  case Nil
  then show ?case
    by (cases q) (simp_all add: isBlockSeq_def atFinalElement_def seqVars_0)
next
  case (Cons n rest)
  have nf: "\<not> atFinalElement q (n # rest)"
    using Cons.prems by (cases q) (simp_all add: isBlockSeq_def atFinalElement_def)
  have "cpsSequence q (n # rest) vars s =
      andThen (cpsSequence q rest (vars @ [Identifier (''_'' @ ''s'' @ show_nat s)])) (\<lambda>inner.
        andThen (lift (buildFunc [Identifier (''_'' @ ''s'' @ show_nat s)] inner)) (\<lambda>f. cps n f)) (Suc s)"
    using nf by (simp add: andThen_gensym)
  also have "\<dots> = andThen (thread rest (seqVars (Suc s) (length rest))
       (getFinalElement q [] ((vars @ [Identifier (''_'' @ ''s'' @ show_nat s)]) @ seqVars (Suc s) (length rest)))) (\<lambda>inner.
        andThen (lift (buildFunc [Identifier (''_'' @ ''s'' @ show_nat s)] inner)) (\<lambda>f. cps n f)) (Suc s + length rest)"
    by (rule andThen_cong_state) (rule Cons.IH[OF Cons.prems])
  finally show ?case
    by (simp add: seqVars_Suc)
qed


lemma cps_compound_application:
  assumes "\<not> isMemberExpression callee"
  shows "cps (CallExpression callee args) cont s =
     thread (callee # args) (seqVars s (Suc (length args)))
       (ret (CallExpression (Identifier (''_s'' @ show_nat s))
               (cont # seqVars (Suc s) (length args))))
       (s + Suc (length args))"
proof -
  have "cps (CallExpression callee args) cont s = cpsSequence (CompoundSeq cont) (callee # args) [] s"
    using assms by simp
  also have "\<dots> = thread (callee # args) (seqVars s (length (callee # args)))
       (getFinalElement (CompoundSeq cont) [] ([] @ seqVars s (length (callee # args))))
       (s + length (callee # args))"
    by (rule cpsSequence_thread) (simp add: isBlockSeq_def)
  finally show ?thesis
    by (simp add: seqVars_Suc)
qed

subsection \<open>Failures\<close>

lemma failsAt_cps: "fails n \<Longrightarrow> failsAt (cps n cont)"
  by (simp add: fails_def failsAt_def)

lemma failsAt_andThen1: "failsAt m \<Longrightarrow> failsAt (andThen m f)"
  by (auto simp: failsAt_def andThen_def split: sum.splits) (metis Inl_Inr_False)

lemma failsAt_andThen2: "(\<And>x. failsAt (f x)) \<Longrightarrow> failsAt (andThen m f)"
  by (auto simp: failsAt_def andThen_def split: sum.splits)

lemma failsAt_throw: "failsAt (throw e)"
  by (simp add: failsAt_def throw_def)

lemma failsAt_cpsSequence:
  "c \<in> set nodes \<Longrightarrow> fails c \<Longrightarrow> failsAt (cpsSequence q nodes vars)"
proof (induction nodes arbitrary: vars)
  case Nil
  then show ?case by simp
next
  case (Cons n rest)
  show ?case
  proof (cases "atFinalElement q (n # rest)")
    case True
    then obtain cont where q: "q = BlockSeq cont" and r: "rest = []"
      by (cases q) (auto simp: atFinalElement_def)
    with Cons.prems show ?thesis
      by (simp add: atFinalElement_def failsAt_cps)
  next
    case False
    show ?thesis
    proof (cases "c = n")
      case True
      with False Cons.prems show ?thesis
        by (auto intro!: failsAt_andThen2 failsAt_cps)
    next
      case False
      with Cons.prems have "c \<in> set rest" by simp
      from Cons.IH[OF this Cons.prems(2)] have "failsAt (cpsSequence q rest vs)" for vs .
      with \<open>\<not> atFinalElement q (n # rest)\<close> show ?thesis
        by (simp add: failsAt_andThen1 failsAt_andThen2)
    qed
  qed
qed

lemma failsAt_cpsObjectExpression:
  "c \<in> set (map (\<lambda>p. snd (snd p)) properties) \<Longrightarrow> fails c
   \<Longrightarrow> failsAt (cpsObjectExpression properties cont props)"
proof (induction properties arbitrary: props)
  case Nil
  then show ?case by simp
next
  case (Cons p rest)
  obtain pkind pkey pvalue where p: "p = (pkind, pkey, pvalue)" by (cases p) auto
  show ?case
  proof (cases "c = pvalue")
    case True
    with Cons.prems p show ?thesis
      by (auto intro!: failsAt_andThen2 failsAt_cps)
  next
    case False
    with Cons.prems p have "c \<in> set (map (\<lambda>p. snd (snd p)) rest)" by auto
    from Cons.IH[OF this Cons.prems(2)] have "failsAt (cpsObjectExpression rest cont ps)" for ps .
    with p show ?thesis
      by (simp add: failsAt_andThen1 failsAt_andThen2)
  qed
qed

lemma failsAt_function_declaration:
  assumes "isFunctionExpression declInit" and "fails (VariableDeclaration [(declId, declInit)])"
  shows "failsAt (cpsAtomic declInit)"
  unfolding failsAt_def
proof
  fix s
  from assms(2) obtain e where "cps (VariableDeclaration [(declId, declInit)]) NullNode s = Inl e"
    unfolding fails_def by blast
  with assms(1) show "\<exists>e. cpsAtomic declInit s = Inl e"
    by (auto simp: andThen_def lift_def ret_def throw_def convertToStatement_def
        split: sum.splits)
qed

lemma failsAt_cpsBlock:
  "c \<in> set nodes \<Longrightarrow> fails c \<Longrightarrow> failsAt (cpsBlock nodes cont)"
proof (induction nodes)
  case Nil
  then show ?case by simp
next
  case (Cons n rest)
  have seq: "failsAt (cpsSequence (BlockSeq cont) (n # rest) [])"
    by (rule failsAt_cpsSequence[OF Cons.prems])
  show ?case
  proof (cases "rest = []")
    case True
    with seq show ?thesis by simp
  next
    case False
    have "failsAt ((\<lambda>fd.
          if fd then
            (case n of
               VariableDeclaration [(declId, declInit)] \<Rightarrow>
                 andThen (cpsAtomic declInit) (\<lambda>f.
                 andThen (cpsBlock rest cont) (\<lambda>newRemainderNode.
                   let newFunctionDeclarationNode = VariableDeclaration [(declId, f)]
                   in case newRemainderNode of
                        BlockStatement body \<Rightarrow>
                          ret (BlockStatement (newFunctionDeclarationNode # body))
                      | _ \<Rightarrow>
                          andThen (lift (convertToStatement newRemainderNode)) (\<lambda>stmt.
                            ret (BlockStatement [newFunctionDeclarationNode, stmt]))))
             | _ \<Rightarrow> throw AssertionError)
          else cpsSequence (BlockSeq cont) (n # rest) []) fd)"
      if fd: "isFunctionDeclaration n = Inr fd" for fd
    proof (cases fd)
      case False
      with seq show ?thesis by simp
    next
      case True
      show ?thesis
      proof (cases "\<exists>declId declInit. n = VariableDeclaration [(declId, declInit)]")
        case False
        then have "(case n of VariableDeclaration [(declId, declInit)] \<Rightarrow> (X declId declInit :: node comp)
             | _ \<Rightarrow> throw AssertionError) = throw AssertionError" for X
          by (auto split: node.splits list.splits prod.splits)
        with True show ?thesis by (simp add: failsAt_throw)
      next
        case ex: True
        then obtain declId declInit where n: "n = VariableDeclaration [(declId, declInit)]" by blast
        with fd True have fe: "isFunctionExpression declInit"
          by (simp add: isFunctionDeclaration_def)
        show ?thesis
        proof (cases "c = n")
          case True
          with Cons.prems n have "fails (VariableDeclaration [(declId, declInit)])" by simp
          from failsAt_function_declaration[OF fe this] \<open>fd\<close> n show ?thesis
            by (simp add: failsAt_andThen1)
        next
          case False
          with Cons.prems have "c \<in> set rest" by simp
          from Cons.IH[OF this Cons.prems(2)] \<open>fd\<close> n show ?thesis
            by (simp add: failsAt_andThen1 failsAt_andThen2)
        qed
      qed
    qed
    then show ?thesis
      using False
      by (auto simp: failsAt_def andThen_def lift_def ret_def throw_def split: sum.splits)
  qed
qed

lemma show_nat_digits:
  "show_nat 0 = ''0''" "show_nat 1 = ''1''" "show_nat 2 = ''2''" "show_nat 3 = ''3''"
  "show_nat 4 = ''4''" "show_nat 5 = ''5''" "show_nat (Suc 0) = ''1''"
  by code_simp+

lemmas comp_defs = ret_def throw_def andThen_def lift_def gensym_def makeGensymVariable_def
  convertToStatement_def buildFunc_def isBlockStatement_def isFunctionExpression_def
  isMemberExpression_def atFinalElement_def isFunctionDeclaration_def returnContIdentifier_def

lemma fails_step:
  assumes "c \<in> set (visited n)" and "fails c"
  shows "fails n"
proof -
  have k: "failsAt (cps c k)" for k
    by (rule failsAt_cps[OF assms(2)])
  have "failsAt (cps n cont)" for cont
  proof (cases n)
    case (Program body)
    with assms show ?thesis by (simp add: failsAt_cpsBlock failsAt_andThen1)
  next
    case (BlockStatement body)
    with assms show ?thesis by (simp add: failsAt_cpsBlock)
  next
    case (ReturnStatement a)
    with assms k show ?thesis by simp
  next
    case (ExpressionStatement e)
    with assms k show ?thesis by simp
  next
    case (FunctionExpression params body)
    with assms k show ?thesis
      by (simp add: failsAt_andThen1 failsAt_andThen2)
  next
    case (VariableDeclaration ds)
    with assms obtain declId where ds: "ds = [(declId, c)]"
      by (auto split: list.splits prod.splits)
    show ?thesis
    proof (cases "isFunctionExpression c")
      case True
      then obtain params body where c: "c = FunctionExpression params body"
        by (auto simp: isFunctionExpression_def split: node.splits)
      have "failsAt (cpsAtomic c)"
        unfolding failsAt_def
      proof
        fix s
        from assms(2) obtain e where "cps c NullNode s = Inl e"
          unfolding fails_def by blast
        then show "\<exists>e. cpsAtomic c s = Inl e"
          unfolding c by (auto simp: andThen_def ret_def split: sum.splits)
      qed
      with True VariableDeclaration ds show ?thesis
        by (simp add: failsAt_andThen1)
    next
      case False
      with VariableDeclaration ds k show ?thesis
        by (simp add: failsAt_andThen2)
    qed
  next
    case (CallExpression callee args)
    with assms show ?thesis
      by (auto simp: failsAt_cpsSequence simp del: cpsSequence.simps split: if_splits)
  next
    case (IfStatement t co a)
    with assms k show ?thesis
      by (auto simp: failsAt_andThen1 failsAt_andThen2 split: if_splits)
  next
    case (ConditionalExpression t co a)
    with assms k show ?thesis
      by (auto simp: failsAt_andThen1 failsAt_andThen2)
  next
    case (ArrayExpression es)
    with assms show ?thesis by (simp add: failsAt_cpsSequence del: cpsSequence.simps)
  next
    case (ObjectExpression ps)
    with assms show ?thesis by (simp add: failsAt_cpsObjectExpression)
  next
    case (MemberExpression ob pr cm)
    with assms k show ?thesis
      by (auto simp: failsAt_andThen1 failsAt_andThen2 split: if_splits)
  next
    case (UnaryExpression op a p)
    with assms show ?thesis by (simp add: failsAt_cpsSequence del: cpsSequence.simps)
  next
    case (BinaryExpression op l r)
    with assms show ?thesis by (auto simp: failsAt_cpsSequence simp del: cpsSequence.simps)
  qed (use assms in simp_all)
  then show ?thesis
    by (simp add: fails_def failsAt_def)
qed

lemma fails_reached: "reached u n \<Longrightarrow> fails u \<Longrightarrow> fails n"
  by (induction rule: reached.induct) (auto intro: fails_step)

subsection \<open>Runs of compiled examples\<close>



lemma run_three_plus_four:
  "compile_and_run 20 logHost ex_env
      (Program [ExpressionStatement (BinaryExpression ''+'' (Literal (LNum 3)) (Literal (LNum 4)))])
      (Identifier ''done'') []
     = Some (Inr [(''done'', [VNum 7])])"
  by code_simp

lemma run_if_false:
  "compile_and_run 20 logHost ex_env
      (IfStatement (Literal (LBool False)) (BlockStatement [ExpressionStatement (Literal (LNum 1))]) NullNode)
      (Identifier ''done'') []
     = Some (Inr [(''done'', [VUndefined])])"
  by code_simp

subsection \<open>Generated names\<close>

lemma read_nat_snoc: "read_nat (cs @ [c]) = 10 * read_nat cs + (of_char c - 48)"
  by (simp add: read_nat_def)

lemma of_char_digit: "n < 10 \<Longrightarrow> (of_char (char_of (48 + n) :: char) :: nat) = 48 + n"
  by (simp add: of_char_of)

lemma read_show_nat: "read_nat (show_nat n) = n"
proof (induction n rule: show_nat.induct)
  case (1 n)
  show ?case
  proof (cases "n < 10")
    case True
    then show ?thesis
      by (subst show_nat.simps) (simp add: read_nat_def of_char_digit)
  next
    case False
    have "read_nat (show_nat n) = 10 * read_nat (show_nat (n div 10)) + (of_char (char_of (48 + n mod 10) :: char) - 48)"
      using False by (subst show_nat.simps) (simp add: read_nat_snoc)
    also have "\<dots> = 10 * (n div 10) + n mod 10"
      using 1[OF False] by (simp add: of_char_digit)
    finally show ?thesis by simp
  qed
qed

lemma show_nat_inject: "show_nat m = show_nat n \<Longrightarrow> m = n"
  by (metis read_show_nat)

lemma seqVar_inject:
  "Identifier (''_'' @ ''s'' @ show_nat i) = Identifier (''_'' @ ''s'' @ show_nat j) \<Longrightarrow> i = j"
  by (simp add: show_nat_inject)


lemma seqNames_Suc: "seqNames s (Suc k) = (''_'' @ ''s'' @ show_nat s) # seqNames (Suc s) k"
  by (simp add: seqNames_def upt_conv_Cons del: upt_Suc)

lemma length_seqNames [simp]: "length (seqNames s k) = k"
  by (simp add: seqNames_def)




subsection \<open>The compilation of a call whose operands are host calls\<close>








subsection \<open>Runs of host calls\<close>



















subsection \<open>A compiled call runs its operands in source order\<close>



subsection \<open>The claims\<close>

text \<open>
  C1: the contract of \<^verbatim>\<open>cps\<close> (a tree that evaluates the node and hands its value to
  the continuation) is not met on a block, a program or a function body with no
  statement: \<^verbatim>\<open>cpsBlock\<close> has no case for the empty list, and the transformer ends
  in the engine's \<^verbatim>\<open>RangeError\<close>.
\<close>

theorem cps_empty_block:
  "cps (BlockStatement []) cont s = Inl RangeError
   \<and> cps (Program []) cont s = Inl RangeError
   \<and> cpsAtomic (FunctionExpression params (BlockStatement [])) s = Inl RangeError"
  by (simp add: comp_defs)

text \<open>
  C3: for \<^verbatim>\<open>if (false) { 1 }\<close> against \<^verbatim>\<open>done\<close> the consequent calls the bound
  name \<^verbatim>\<open>_cont0\<close>, but the alternate is \<^verbatim>\<open>done(undefined)\<close>: a second copy of
  the continuation expression, not the bound name.
\<close>

theorem cpsIf_no_else_duplicates_cont:
  "cps (IfStatement (Literal (LBool False))
          (BlockStatement [ExpressionStatement (Literal (LNum 1))]) NullNode)
       (Identifier ''done'') 0
   = Inr (CallExpression
       (FunctionExpression [Identifier ''_cont0'']
         (BlockStatement
           [ExpressionStatement
             (CallExpression
               (FunctionExpression [Identifier ''_test1'']
                 (BlockStatement
                   [IfStatement (Identifier ''_test1'')
                     (ExpressionStatement
                       (CallExpression (Identifier ''_cont0'') [Literal (LNum 1)]))
                     (ExpressionStatement
                       (CallExpression (Identifier ''done'') [Identifier ''undefined'']))]))
               [Literal (LBool False)])]))
       [Identifier ''done''], 2)"
  by (simp add: comp_defs show_nat_digits numeral_2_eq_2)

lemma cpsAtomic_function:
  assumes "cpsAtomic (FunctionExpression params body) s = Inr (f, s')"
  shows "\<exists>inner stmt.
       cps body (Identifier (''_k'' @ show_nat s)) (Suc s) = Inr (inner, s')
     \<and> convertToStatement inner = Inr stmt
     \<and> f = FunctionExpression (Identifier (''_k'' @ show_nat s) # params)
           (BlockStatement
              [VariableDeclaration [(returnContIdentifier, Identifier (''_k'' @ show_nat s))], stmt])"
proof (cases "cps body (Identifier (''_k'' @ show_nat s)) (Suc s)")
  case (Inl e)
  with assms show ?thesis
    by (simp add: andThen_gensym) (simp add: andThen_def)
next
  case (Inr r)
  obtain inner s1 where r: "r = (inner, s1)" by (cases r) auto
  show ?thesis
  proof (cases "convertToStatement inner")
    case (Inl e)
    with assms Inr r show ?thesis
      by (simp add: andThen_gensym) (simp add: andThen_def lift_def throw_def)
  next
    case stmt: (Inr stmt)
    with assms Inr r show ?thesis
      by (simp add: andThen_gensym)
         (simp add: andThen_def lift_def ret_def buildFunc_def isBlockStatement_def)
  qed
qed

text \<open>
  C6: a compiled function expression has the name \<^verbatim>\<open>makeGensymVariable("k")\<close> returns
  at the point of the call as its first parameter, before the original parameters, and its
  body binds \<^verbatim>\<open>_return\<close> to that name before the compiled body; a call whose callee
  is not a member expression compiles callee and arguments as one sequence, and the call
  at its end has the name bound to the callee as operator and the continuation as first
  argument, before the names bound to the arguments.
\<close>

theorem compiled_function_convention:
  "(cpsAtomic (FunctionExpression params body) s = Inr (f, s') \<longrightarrow>
      (\<exists>inner stmt.
         cps body (Identifier (''_k'' @ show_nat s)) (Suc s) = Inr (inner, s')
       \<and> convertToStatement inner = Inr stmt
       \<and> f = FunctionExpression (Identifier (''_k'' @ show_nat s) # params)
             (BlockStatement
                [VariableDeclaration [(returnContIdentifier, Identifier (''_k'' @ show_nat s))],
                 stmt])))
   \<and> (\<not> isMemberExpression callee \<longrightarrow>
        cps (CallExpression callee args) cont s =
          thread (callee # args) (seqVars s (Suc (length args)))
            (ret (CallExpression (Identifier (''_s'' @ show_nat s))
                    (cont # seqVars (Suc s) (length args))))
            (s + Suc (length args)))"
  using cpsAtomic_function cps_compound_application by blast

text \<open>An instance of C6: \<^verbatim>\<open>function(x) { return x }\<close> and \<^verbatim>\<open>f(1)\<close>.\<close>

theorem compiled_function_convention_witness:
  "cpsAtomic (FunctionExpression [Identifier ''x''] (BlockStatement [ReturnStatement (Identifier ''x'')])) 0
     = Inr (FunctionExpression [Identifier ''_k0'', Identifier ''x'']
              (BlockStatement
                 [VariableDeclaration [(Identifier ''_return'', Identifier ''_k0'')],
                  ExpressionStatement (CallExpression (Identifier ''_return'') [Identifier ''x''])]), 1)
   \<and> \<not> isMemberExpression (Identifier ''f'')
   \<and> cps (CallExpression (Identifier ''f'') [Literal (LNum 1)]) (Identifier ''done'') 0
     = Inr (CallExpression
              (FunctionExpression [Identifier ''_s0'']
                 (BlockStatement
                    [ExpressionStatement
                       (CallExpression
                          (FunctionExpression [Identifier ''_s1'']
                             (BlockStatement
                                [ExpressionStatement
                                   (CallExpression (Identifier ''_s0'')
                                      [Identifier ''done'', Identifier ''_s1''])]))
                          [Literal (LNum 1)])]))
              [Identifier ''f''], 2)"
proof -
  let ?fn = "FunctionExpression [Identifier ''x''] (BlockStatement [ReturnStatement (Identifier ''x'')])"
  let ?out = "FunctionExpression [Identifier ''_k0'', Identifier ''x'']
              (BlockStatement
                 [VariableDeclaration [(Identifier ''_return'', Identifier ''_k0'')],
                  ExpressionStatement (CallExpression (Identifier ''_return'') [Identifier ''x''])])"
  have a: "cpsAtomic ?fn 0 = Inr (?out, 1)"
    by (simp add: comp_defs show_nat_digits)
  have m: "\<not> isMemberExpression (Identifier ''f'')"
    by (simp add: isMemberExpression_def)
  note t = compiled_function_convention[where params = "[Identifier ''x'']"
      and body = "BlockStatement [ReturnStatement (Identifier ''x'')]" and s = 0 and f = ?out
      and s' = 1 and callee = "Identifier ''f''" and args = "[Literal (LNum 1)]"
      and cont = "Identifier ''done''"]
  from t m have "cps (CallExpression (Identifier ''f'') [Literal (LNum 1)]) (Identifier ''done'') 0 =
          thread [Identifier ''f'', Literal (LNum 1)] (seqVars 0 (Suc (Suc 0)))
            (ret (CallExpression (Identifier (''_s'' @ show_nat 0))
                    (Identifier ''done'' # seqVars (Suc 0) (Suc 0))))
            (Suc (Suc 0))"
    by simp
  then have c: "cps (CallExpression (Identifier ''f'') [Literal (LNum 1)]) (Identifier ''done'') 0
     = Inr (CallExpression
              (FunctionExpression [Identifier ''_s0'']
                 (BlockStatement
                    [ExpressionStatement
                       (CallExpression
                          (FunctionExpression [Identifier ''_s1'']
                             (BlockStatement
                                [ExpressionStatement
                                   (CallExpression (Identifier ''_s0'')
                                      [Identifier ''done'', Identifier ''_s1''])]))
                          [Literal (LNum 1)])]))
              [Identifier ''f''], 2)"
    by (simp add: seqVars_Suc seqVars_0 comp_defs show_nat_digits)
  from a m c show ?thesis by simp
qed

text \<open>
  C8, as stated, fails: the callee of \<^verbatim>\<open>this.f()\<close> is a member expression, which
  is copied into the output, so the unsupported \<^verbatim>\<open>ThisExpression\<close> in it raises
  nothing.
\<close>

theorem cps_unsupported_in_callee_counterexample:
  "cps (CallExpression
          (MemberExpression (Other ''ThisExpression'' ExpressionClass) (Identifier ''f'') False) [])
       (Identifier ''done'') 0
   = Inr (CallExpression (Identifier ''done'')
            [CallExpression
               (MemberExpression (Other ''ThisExpression'' ExpressionClass) (Identifier ''f'') False)
               []], 0)"
  by (simp add: comp_defs)

lemma fails_Other: "fails (Other t c)"
  by (simp add: fails_def throw_def)

lemma fails_declarators: "length declarations \<noteq> 1 \<Longrightarrow> fails (VariableDeclaration declarations)"
  by (auto simp: fails_def throw_def split: list.splits)

text \<open>
  C8 (amended): \<^verbatim>\<open>cps\<close> on a node of an unsupported kind throws the error that names
  the kind; on a declaration with a number of declarators other than one it throws the
  \<^verbatim>\<open>AssertionError\<close> of \<^verbatim>\<open>assert.equal\<close>; and it throws, returning no tree,
  on every tree in which it reaches such a node.
\<close>

theorem translation_errors:
  "cps (Other t c) cont s = Inl (Error (''cps: unknown node type: '' @ t))
   \<and> (length declarations \<noteq> 1 \<longrightarrow>
        cps (VariableDeclaration declarations) cont s = Inl AssertionError)
   \<and> (reached (Other t c) n \<longrightarrow> (\<exists>e. cps n cont s = Inl e))
   \<and> (length declarations \<noteq> 1 \<and> reached (VariableDeclaration declarations) n \<longrightarrow>
        (\<exists>e. cps n cont s = Inl e))"
proof -
  have 1: "cps (Other t c) cont s = Inl (Error (''cps: unknown node type: '' @ t))"
    by (simp add: throw_def)
  have 2: "cps (VariableDeclaration declarations) cont s = Inl AssertionError"
    if "length declarations \<noteq> 1"
    using that by (auto simp: throw_def split: list.splits)
  have 3: "\<exists>e. cps n cont s = Inl e" if "reached (Other t c) n"
    using fails_reached[OF that fails_Other] by (simp add: fails_def)
  have 4: "\<exists>e. cps n cont s = Inl e"
    if "length declarations \<noteq> 1" "reached (VariableDeclaration declarations) n"
    using fails_reached[OF that(2) fails_declarators[OF that(1)]] by (simp add: fails_def)
  from 1 2 3 4 show ?thesis by blast
qed

text \<open>An instance of C8: a two-declarator declaration, and a \<^verbatim>\<open>while\<close> in a program.\<close>

theorem translation_errors_witness:
  "length [(Identifier ''x'', Literal (LNum 1)), (Identifier ''y'', Literal (LNum 2))] \<noteq> 1
   \<and> cps (VariableDeclaration [(Identifier ''x'', Literal (LNum 1)), (Identifier ''y'', Literal (LNum 2))])
        (Identifier ''done'') 0 = Inl AssertionError
   \<and> reached (Other ''WhileStatement'' StatementClass)
        (Program [ExpressionStatement (Literal (LNum 1)), Other ''WhileStatement'' StatementClass])
   \<and> (\<exists>e. cps (Program [ExpressionStatement (Literal (LNum 1)), Other ''WhileStatement'' StatementClass])
          (Identifier ''done'') 0 = Inl e)
   \<and> reached (VariableDeclaration [(Identifier ''x'', Literal (LNum 1)), (Identifier ''y'', Literal (LNum 2))])
        (BlockStatement [VariableDeclaration [(Identifier ''x'', Literal (LNum 1)), (Identifier ''y'', Literal (LNum 2))]])
   \<and> (\<exists>e. cps (BlockStatement [VariableDeclaration [(Identifier ''x'', Literal (LNum 1)), (Identifier ''y'', Literal (LNum 2))]])
          (Identifier ''done'') 0 = Inl e)"
proof -
  let ?ds = "[(Identifier ''x'', Literal (LNum 1)), (Identifier ''y'', Literal (LNum 2))]"
  let ?w = "Other ''WhileStatement'' StatementClass"
  let ?p = "Program [ExpressionStatement (Literal (LNum 1)), ?w]"
  let ?b = "BlockStatement [VariableDeclaration ?ds]"
  have l: "length ?ds \<noteq> 1" by simp
  have r1: "reached ?w ?p"
    by (rule reached.below[where c = "?w"]) (simp_all add: reached.here)
  have r2: "reached (VariableDeclaration ?ds) ?b"
    by (rule reached.below[where c = "VariableDeclaration ?ds"]) (simp_all add: reached.here)
  note t = translation_errors[where declarations = ?ds and cont = "Identifier ''done''" and s = 0
      and t = "''WhileStatement''" and c = StatementClass]
  from t[where n = ?p] r1 have e1: "\<exists>e. cps ?p (Identifier ''done'') 0 = Inl e" by blast
  from t[where n = ?b] l r2 have e2: "\<exists>e. cps ?b (Identifier ''done'') 0 = Inl e" by blast
  from t[where n = ?b] l have a: "cps (VariableDeclaration ?ds) (Identifier ''done'') 0 = Inl AssertionError"
    by blast
  from l a r1 e1 r2 e2 show ?thesis by blast
qed



end
